theory Spec2Isabelle
  imports Complex_Main "HOL-Library.Sublist" "HOL-Library.Multiset"
begin

section \<open>Python values\<close>

text \<open>
  The RAG pipeline of US-FoodScope lives in two files of \<^verbatim>\<open>health/serving\<close>:
  \<^verbatim>\<open>generate_assets.py\<close> (the offline build) and \<^verbatim>\<open>rag_service.py\<close> (the online
  service), with the \<^verbatim>\<open>/ask\<close> endpoint of \<^verbatim>\<open>app.py\<close> on top.

  A Python float is a real number or one of the three special values. Comparison of
  floats is exact, so \<open>min\<close> and \<open>max\<close> on them are modelled without rounding.
\<close>

datatype pyfloat = Fin real | PInf | NInf | NaN

text \<open>Python's \<^verbatim>\<open>a < b\<close> on floats: every comparison with NaN is false.\<close>

fun float_lt :: "pyfloat \<Rightarrow> pyfloat \<Rightarrow> bool" where
  "float_lt NaN _ = False"
| "float_lt _ NaN = False"
| "float_lt (Fin a) (Fin b) = (a < b)"
| "float_lt (Fin _) PInf = True"
| "float_lt (Fin _) NInf = False"
| "float_lt PInf _ = False"
| "float_lt NInf NInf = False"
| "float_lt NInf _ = True"

text \<open>
  The builtins \<^verbatim>\<open>min(a, b)\<close> and \<^verbatim>\<open>max(a, b)\<close> keep the first argument unless the
  second one is strictly smaller (greater).
\<close>

definition py_min :: "pyfloat \<Rightarrow> pyfloat \<Rightarrow> pyfloat" where
  "py_min a b = (if float_lt b a then b else a)"

definition py_max :: "pyfloat \<Rightarrow> pyfloat \<Rightarrow> pyfloat" where
  "py_max a b = (if float_lt a b then b else a)"

text \<open>The values a cell of a data frame or an entry of a metadata dict can hold.\<close>

datatype pyval = PNone | PBool bool | PInt int | PFloat pyfloat | PStr string

text \<open>\<^verbatim>\<open>pd.notna\<close> on a scalar: \<^verbatim>\<open>None\<close> and NaN are null, everything else is not.\<close>

fun notna :: "pyval \<Rightarrow> bool" where
  "notna PNone = False"
| "notna (PFloat NaN) = False"
| "notna _ = True"

definition nl :: string where
  "nl = [CHR 0x0A]"

definition digit_char :: "nat \<Rightarrow> char" where
  "digit_char n = ''0123456789'' ! (n mod 10)"

fun str_nat :: "nat \<Rightarrow> string" where
  "str_nat n = (if n < 10 then [digit_char n] else str_nat (n div 10) @ [digit_char n])"

definition str_int :: "int \<Rightarrow> string" where
  "str_int i = (if i < 0 then ''-'' @ str_nat (nat (- i)) else str_nat (nat i))"

text \<open>
  What an f-string writes for a value, \<^verbatim>\<open>str(v)\<close>. The shortest-digits rendering of a
  finite float is a function of the double, which the real number stands for; it is the
  parameter \<open>fr\<close>.
\<close>

fun py_str :: "(real \<Rightarrow> string) \<Rightarrow> pyval \<Rightarrow> string" where
  "py_str fr PNone = ''None''"
| "py_str fr (PBool b) = (if b then ''True'' else ''False'')"
| "py_str fr (PInt i) = str_int i"
| "py_str fr (PFloat (Fin r)) = fr r"
| "py_str fr (PFloat PInf) = ''inf''"
| "py_str fr (PFloat NInf) = ''-inf''"
| "py_str fr (PFloat NaN) = ''nan''"
| "py_str fr (PStr s) = s"

section \<open>Profile Builder: \<^verbatim>\<open>row_to_text\<close>\<close>

text \<open>
  A row of a data frame (a pandas Series) maps column names to values;
  \<^verbatim>\<open>row.get(key, default)\<close> gives the default for a column the frame does not have.
\<close>

type_synonym row = "string \<rightharpoonup> pyval"

definition row_get :: "row \<Rightarrow> string \<Rightarrow> pyval \<Rightarrow> pyval" where
  "row_get row key dflt = (case row key of None \<Rightarrow> dflt | Some v \<Rightarrow> v)"

definition row_to_text :: "(real \<Rightarrow> string) \<Rightarrow> row \<Rightarrow> string" where
  "row_to_text fr row =
    (let county = row_get row ''County'' (PStr ''Unknown County'');
         state = row_get row ''State'' (PStr ''Unknown State'');
         pop = row_get row ''Population'' (PStr ''N/A'');
         poverty = row_get row ''Poverty_Rate'' (PStr ''N/A'');
         income = row_get row ''Median_Income'' (PStr ''N/A'');
         obesity = row_get row ''Adult_Obesity_Rate13'' (PStr ''N/A'');
         diabetes = row_get row ''Adult_Diabetes_Rate13'' (PStr ''N/A'');
         grocery = row_get row ''Grocery_Stores_Per1000'' (PStr ''N/A'');
         farmers = row_get row ''Farmers_Markets_Count_16'' (PStr ''N/A'');
         insecurity = row_get row ''FOODINSEC_13_15'' (PStr ''N/A'');
         low_access = row_get row ''PCT_LACCESS_POP15'' (PStr ''N/A'');
         ff_restaurants = row_get row ''FFRPTH14'' (PStr ''N/A'');
         gyms = row_get row ''GYMs_Per_1000_Count_14'' (PStr ''N/A'');
         text0 = ''Comprehensive Profile for '' @ py_str fr county @ '', ''
                   @ py_str fr state @ '':'' @ nl;
         text1 =
           (if notna (row_get row ''composite_risk'' PNone) then
              (let risk = row_get row ''composite_risk'' PNone;
                   cluster = row_get row ''Cluster'' PNone
               in text0
                  @ ''!!! ALERT: This county is identified as a Highest Composite Health Risk area (Cluster ''
                  @ py_str fr cluster @ '').'' @ nl
                  @ ''- Composite Health Risk Score: '' @ py_str fr risk @ ''.'' @ nl)
            else text0);
         text2 = text1 @ ''- Demographics: Population: '' @ py_str fr pop
                   @ '', Poverty Rate: '' @ py_str fr poverty
                   @ ''%, Median Income: $'' @ py_str fr income @ ''.'' @ nl;
         text3 = text2 @ ''- Health Outcomes: Adult Obesity Rate: '' @ py_str fr obesity
                   @ ''%, Adult Diabetes Rate: '' @ py_str fr diabetes @ ''%.'' @ nl;
         text4 = text3 @ ''- Food Environment: '' @ py_str fr grocery
                   @ '' grocery stores per 1k residents, '' @ py_str fr farmers
                   @ '' farmers markets. '';
         text5 = text4 @ ''Fast food density: '' @ py_str fr ff_restaurants
                   @ ''/1k residents.'' @ nl;
         text6 = text5 @ ''- Food Security: Food insecurity: '' @ py_str fr insecurity
                   @ ''%. '' @ py_str fr low_access @ ''% of pop. has low food access.'' @ nl;
         text7 = text6 @ ''- Physical Activity: Gym density: '' @ py_str fr gyms
                   @ ''/1k residents.'' @ nl;
         text8 =
           (if notna (row_get row ''Description'' PNone)
            then text7 @ ''- Environmental Context: ''
                   @ py_str fr (row_get row ''Description'' PNone) @ nl
            else text7);
         text9 =
           (if notna (row_get row ''Rule_Description'' PNone)
            then text8 @ ''- Policy Context: ''
                   @ py_str fr (row_get row ''Rule_Description'' PNone) @ nl
            else text8)
     in text9)"




section \<open>Chunks, embeddings and the vector index\<close>

text \<open>The dataclass \<^verbatim>\<open>Chunk\<close>; its field \<^verbatim>\<open>text\<close> is \<open>chunk_text\<close> here.\<close>

record chunk =
  chunk_text :: string
  metadata :: "string \<rightharpoonup> pyval"
  chunk_id :: int

datatype error =
    AttributeError
  | AssertionError
  | IndexError
  | LoadError string
  | HTTPException nat string

text \<open>
  Vectors are rows of a numpy array, with real entries. A loaded sentence-transformer
  is the function its \<^verbatim>\<open>encode\<close> computes on one text; on a list of texts
  \<^verbatim>\<open>encode\<close> gives the vectors in the order of the texts.
\<close>

type_synonym vec = "real list"

type_synonym sentence_transformer = "string \<Rightarrow> vec"

text \<open>
  \<^verbatim>\<open>faiss.normalize_L2\<close> divides every row by its Euclidean norm and leaves a zero row
  as it is.
\<close>

definition normalize_L2 :: "vec \<Rightarrow> vec" where
  "normalize_L2 v =
     (let n = sqrt (sum_list (map (\<lambda>x. x * x) v))
      in if 0 < n then map (\<lambda>x. x / n) v else v)"

text \<open>
  The flat inner-product index of FAISS, a library outside the repository, is modelled
  from its documented behaviour: it stores the added vectors in insertion order, and a
  search for \<open>k\<close> neighbours returns exactly \<open>k\<close> pairs of label and score, best score
  first, filled up with the label \<open>-1\<close> and the lowest 32-bit float when fewer than \<open>k\<close>
  vectors are stored. It asserts \<open>k > 0\<close> and that the query has the dimension of the
  index. The order among equal scores is not used by any property below.
\<close>

record index_flat_ip =
  dim :: nat
  xb :: "vec list"

definition IndexFlatIP :: "nat \<Rightarrow> index_flat_ip" where
  "IndexFlatIP n = \<lparr>dim = n, xb = []\<rparr>"

definition index_add :: "index_flat_ip \<Rightarrow> vec list \<Rightarrow> index_flat_ip" where
  "index_add idx vs = idx\<lparr>xb := xb idx @ vs\<rparr>"

definition ntotal :: "index_flat_ip \<Rightarrow> nat" where
  "ntotal idx = length (xb idx)"

definition inner_product :: "vec \<Rightarrow> vec \<Rightarrow> real" where
  "inner_product q v = sum_list (map2 (*) q v)"

definition lowest_float :: real where
  "lowest_float = - 340282346638528859811704183484516925440"

definition index_search :: "index_flat_ip \<Rightarrow> vec \<Rightarrow> int \<Rightarrow> error + (int \<times> pyfloat) list" where
  "index_search idx q k =
     (if k \<le> 0 \<or> length q \<noteq> dim idx then Inl AssertionError
      else
        (let scored = map (\<lambda>(i, v). (int i, inner_product q v)) (enumerate 0 (xb idx));
             ranked = sort_key (\<lambda>(i, s). - s) scored;
             best = take (nat k) ranked;
             padding = replicate (nat k - length best) (- 1, lowest_float)
         in Inr (map (\<lambda>(i, s). (i, Fin s)) (best @ padding))))"

section \<open>Offline asset generator: \<^verbatim>\<open>generate_assets\<close>\<close>

text \<open>
  A data frame is the list of its rows. Both \<^verbatim>\<open>pd.read_csv\<close> without an index column
  and \<^verbatim>\<open>pd.merge\<close> give the frame the default index \<open>0, 1, 2, ...\<close>, so
  \<^verbatim>\<open>iterrows\<close> pairs every row with its position.
\<close>

definition iterrows :: "row list \<Rightarrow> (nat \<times> row) list" where
  "iterrows df = enumerate 0 df"

text \<open>The loop of lines 83 to 91, which appends to \<^verbatim>\<open>chunks\<close> and \<^verbatim>\<open>texts\<close>.\<close>

fun build_chunks ::
  "(real \<Rightarrow> string) \<Rightarrow> (nat \<times> row) list \<Rightarrow> chunk list \<times> string list \<Rightarrow> chunk list \<times> string list"
where
  "build_chunks fr [] acc = acc"
| "build_chunks fr ((i, row) # rest) (chunks, texts) =
     (let txt = row_to_text fr row;
          meta = [''county'' \<mapsto> row_get row ''County'' PNone,
                  ''state'' \<mapsto> row_get row ''State'' PNone,
                  ''is_high_risk'' \<mapsto> PBool (notna (row_get row ''composite_risk'' PNone))]
      in build_chunks fr rest
           (chunks @ [\<lparr>chunk_text = txt, metadata = meta, chunk_id = int i\<rparr>], texts @ [txt]))"

text \<open>
  Lines 65 to 76: the frame of the worst clusters is \<open>None\<close> when its file does not
  exist; otherwise the main frame is left-joined with it by \<^verbatim>\<open>pd.merge\<close>, a function
  of the two frames.
\<close>

definition df_combined ::
  "(row list \<Rightarrow> row list \<Rightarrow> row list) \<Rightarrow> row list \<Rightarrow> row list option \<Rightarrow> row list"
where
  "df_combined merge df_main df_worst =
     (case df_worst of Some w \<Rightarrow> merge df_main w | None \<Rightarrow> df_main)"

text \<open>
  \<^verbatim>\<open>generate_assets\<close> from the two frames read, the join and the loaded model
  \<open>encode\<close>. The result is the pair written to the two artifact files. An empty frame
  has an embedding array without a second axis, and \<^verbatim>\<open>embeddings.shape[1]\<close> raises.
\<close>

definition generate_assets ::
  "(real \<Rightarrow> string) \<Rightarrow> sentence_transformer \<Rightarrow> (row list \<Rightarrow> row list \<Rightarrow> row list)
     \<Rightarrow> row list \<Rightarrow> row list option \<Rightarrow> error + (index_flat_ip \<times> chunk list)"
where
  "generate_assets fr encode merge df_main df_worst =
     (let (chunks, texts) =
            build_chunks fr (iterrows (df_combined merge df_main df_worst)) ([], []);
          embeddings = map normalize_L2 (map encode texts)
      in case embeddings of
           [] \<Rightarrow> Inl IndexError
         | e # _ \<Rightarrow> Inr (index_add (IndexFlatIP (length e)) embeddings, chunks))"

section \<open>The service: \<^verbatim>\<open>RAGService\<close>\<close>

record rag_service =
  csv_path :: string
  index_path :: string
  chunks_path :: string
  model_name :: string
  model :: "sentence_transformer option"
  index :: "index_flat_ip option"
  chunks :: "chunk list"
  client :: "string option"
  initialized :: bool

text \<open>\<^verbatim>\<open>RAGService()\<close> with the default arguments, as \<^verbatim>\<open>app.py\<close> constructs it.\<close>

definition new_rag_service :: rag_service where
  "new_rag_service =
     \<lparr>csv_path = ''rag_df.csv'', index_path = ''faiss_index.bin'',
      chunks_path = ''chunks.pkl'', model_name = ''all-MiniLM-L6-v2'',
      model = None, index = None, chunks = [], client = None, initialized = False\<rparr>"

text \<open>
  What \<^verbatim>\<open>initialize\<close> and \<^verbatim>\<open>ask\<close> read from outside the process: the model hub, the
  two artifact files (no entry for a path that does not exist; reading an existing file
  gives its content or raises), the environment variable \<^verbatim>\<open>GROQ_API_KEY\<close>, and the
  chat-completion endpoint (from the key and the prompt to the text of the first
  choice, or to the message of the exception raised).
\<close>

record environment =
  load_model :: "string \<Rightarrow> error + sentence_transformer"
  index_files :: "string \<rightharpoonup> error + index_flat_ip"
  chunk_files :: "string \<rightharpoonup> error + chunk list"
  groq_api_key :: "string option"
  chat_completion :: "string \<Rightarrow> string \<Rightarrow> string + string"

text \<open>
  A method that mutates the service returns the exception raised, if any, the service
  as it has left it, and the lines it has printed.
\<close>

type_synonym step = "error option \<times> rag_service \<times> string list"

definition and_then :: "step \<Rightarrow> (rag_service \<Rightarrow> step) \<Rightarrow> step" where
  "and_then r f =
     (case r of
        (Some e, s, out) \<Rightarrow> (Some e, s, out)
      | (None, s, out) \<Rightarrow> (case f s of (r', s', out') \<Rightarrow> (r', s', out @ out')))"

text \<open>Lines 43 to 45.\<close>

definition load_embedding_model :: "environment \<Rightarrow> rag_service \<Rightarrow> step" where
  "load_embedding_model env s =
     (let out = [''Loading embedding model: '' @ model_name s @ ''...'']
      in case load_model env (model_name s) of
           Inl e \<Rightarrow> (Some e, s, out)
         | Inr m \<Rightarrow> (None, s\<lparr>model := Some m\<rparr>, out))"

text \<open>Lines 47 to 52.\<close>

definition load_faiss_index :: "environment \<Rightarrow> rag_service \<Rightarrow> step" where
  "load_faiss_index env s =
     (case index_files env (index_path s) of
        Some content \<Rightarrow>
          (let out = [''Loading FAISS index from '' @ index_path s @ ''...'']
           in case content of
                Inl e \<Rightarrow> (Some e, s, out)
              | Inr idx \<Rightarrow> (None, s\<lparr>index := Some idx\<rparr>, out))
      | None \<Rightarrow>
          (None, s, [''Warning: '' @ index_path s @ '' not found. RAG will not work.'']))"

text \<open>Lines 54 to 60.\<close>

definition load_chunks :: "environment \<Rightarrow> rag_service \<Rightarrow> step" where
  "load_chunks env s =
     (case chunk_files env (chunks_path s) of
        Some content \<Rightarrow>
          (let out = [''Loading chunks from '' @ chunks_path s @ ''...'']
           in case content of
                Inl e \<Rightarrow> (Some e, s, out)
              | Inr cs \<Rightarrow> (None, s\<lparr>chunks := cs\<rparr>, out))
      | None \<Rightarrow> (None, s, [''Warning: '' @ chunks_path s @ '' not found.'']))"

text \<open>Lines 62 to 67; an empty key is false in \<^verbatim>\<open>if api_key\<close>.\<close>

definition init_groq_client :: "environment \<Rightarrow> rag_service \<Rightarrow> step" where
  "init_groq_client env s =
     (case groq_api_key env of
        Some api_key \<Rightarrow>
          (if api_key \<noteq> [] then (None, s\<lparr>client := Some api_key\<rparr>, [])
           else (None, s, [''Warning: GROQ_API_KEY not found in environment.'']))
      | None \<Rightarrow> (None, s, [''Warning: GROQ_API_KEY not found in environment.'']))"

definition initialize :: "environment \<Rightarrow> rag_service \<Rightarrow> step" where
  "initialize env s =
     (if initialized s then (None, s, [])
      else
        and_then (load_embedding_model env s) (\<lambda>s.
        and_then (load_faiss_index env s) (\<lambda>s.
        and_then (load_chunks env s) (\<lambda>s.
        and_then (init_groq_client env s) (\<lambda>s.
        (None, s\<lparr>initialized := True\<rparr>, []))))))"

subsection \<open>\<^verbatim>\<open>retrieve\<close>\<close>

text \<open>The loop of lines 80 to 88 over the pairs \<^verbatim>\<open>zip(indices[0], distances[0])\<close>.\<close>

definition similarity_of :: "pyfloat \<Rightarrow> pyfloat" where
  "similarity_of distance = py_max (Fin 0) (py_min (Fin 1) distance)"

fun collect_results ::
  "chunk list \<Rightarrow> (int \<times> pyfloat) list \<Rightarrow> (chunk \<times> pyfloat) list \<Rightarrow> (chunk \<times> pyfloat) list"
where
  "collect_results cs [] results = results"
| "collect_results cs ((idx, distance) # rest) results =
     (if 0 \<le> idx \<and> idx < int (length cs)
      then collect_results cs rest (results @ [(cs ! nat idx, similarity_of distance)])
      else collect_results cs rest results)"

text \<open>
  \<^verbatim>\<open>not self.index\<close> holds for \<^verbatim>\<open>None\<close> only, \<^verbatim>\<open>not self.chunks\<close> for the empty list.
  With the model still \<^verbatim>\<open>None\<close>, \<^verbatim>\<open>self.model.encode\<close> raises.
\<close>

definition retrieve :: "rag_service \<Rightarrow> string \<Rightarrow> int \<Rightarrow> error + (chunk \<times> pyfloat) list" where
  "retrieve s query top_k =
     (case index s of
        None \<Rightarrow> Inr []
      | Some idx \<Rightarrow>
          (if chunks s = [] then Inr []
           else
             (case model s of
                None \<Rightarrow> Inl AttributeError
              | Some m \<Rightarrow>
                  (let query_embedding = normalize_L2 (m query)
                   in case index_search idx query_embedding top_k of
                        Inl e \<Rightarrow> Inl e
                      | Inr found \<Rightarrow> Inr (collect_results (chunks s) found [])))))"

subsection \<open>\<^verbatim>\<open>ask\<close>\<close>

datatype ask_result =
    ErrorResult string
  | AnswerResult (answer: string) (sources: "(string \<rightharpoonup> pyval) list") (context_used: string)

fun join :: "string \<Rightarrow> string list \<Rightarrow> string" where
  "join sep [] = []"
| "join sep [x] = x"
| "join sep (x # y # ys) = x @ sep @ join sep (y # ys)"

definition metadata_get :: "chunk \<Rightarrow> string \<Rightarrow> pyval \<Rightarrow> pyval" where
  "metadata_get c key dflt = (case metadata c key of None \<Rightarrow> dflt | Some v \<Rightarrow> v)"

definition source_block :: "(real \<Rightarrow> string) \<Rightarrow> chunk \<Rightarrow> string" where
  "source_block fr c =
     ''[Source: '' @ py_str fr (metadata_get c ''county'' (PStr ''Unknown'')) @ '', ''
       @ py_str fr (metadata_get c ''state'' (PStr ''Unknown'')) @ ''] '' @ chunk_text c"

definition build_prompt :: "string \<Rightarrow> string \<Rightarrow> string" where
  \<open>build_prompt context query =
     nl
     @ ''        You are an expert in U.S. food environment and health analysis. '' @ nl
     @ ''        Use the following retrieved context to answer the user's question accurately.'' @ nl
     @ ''        '' @ nl
     @ ''        FORMATTING & STYLE RULES:'' @ nl
     @ ''        1. NEVER mention words like "context", "provided data", "the text above", or "based on the information" in your response.'' @ nl
     @ ''        2. Speak directly as an expert performing the analysis.'' @ nl
     @ ''        3. Use **bold text** for key metrics like percentages or scores.'' @ nl
     @ ''        4. Use bullet points for lists of facts or recommendations.'' @ nl
     @ ''        5. Use Markdown TABLES when comparing data for two or more counties.'' @ nl
     @ ''        6. Keep your tone professional, authoritative, and data-driven.'' @ nl
     @ ''        '' @ nl
     @ ''        Context:'' @ nl
     @ ''        '' @ context @ nl
     @ ''        '' @ nl
     @ ''        User Question: '' @ query @ nl
     @ ''        '' @ nl
     @ ''        Answer:'' @ nl
     @ ''        ''\<close>

definition source_info :: "chunk \<times> pyfloat \<Rightarrow> (string \<rightharpoonup> pyval)" where
  "source_info cs = (case cs of (c, score) \<Rightarrow> (metadata c)(''similarity'' \<mapsto> PFloat score))"

definition client_missing :: string where
  "client_missing = ''Groq client not initialized. Set GROQ_API_KEY environment variable.''"

text \<open>
  \<^verbatim>\<open>ask\<close> returns a dict, or raises what \<^verbatim>\<open>initialize\<close> or \<^verbatim>\<open>retrieve\<close> raise; every
  exception of the completion call is caught and becomes an error dict.
\<close>

definition ask ::
  "(real \<Rightarrow> string) \<Rightarrow> environment \<Rightarrow> rag_service \<Rightarrow> string
     \<Rightarrow> (error + ask_result) \<times> rag_service \<times> string list"
where
  "ask fr env s query =
     (case (if \<not> initialized s then initialize env s else (None, s, [])) of
        (Some e, s', out) \<Rightarrow> (Inl e, s', out)
      | (None, s', out) \<Rightarrow>
          (case client s' of
             None \<Rightarrow> (Inr (ErrorResult client_missing), s', out)
           | Some key \<Rightarrow>
               (case retrieve s' query 10 of
                  Inl e \<Rightarrow> (Inl e, s', out)
                | Inr relevant_chunks \<Rightarrow>
                    (let context =
                           join (nl @ nl) (map (\<lambda>(c, _). source_block fr c) relevant_chunks);
                         prompt = build_prompt context query
                     in case chat_completion env key prompt of
                          Inl e \<Rightarrow> (Inr (ErrorResult e), s', out)
                        | Inr response_text \<Rightarrow>
                            (Inr (AnswerResult response_text
                                    (map source_info relevant_chunks) context),
                             s', out)))))"

subsection \<open>The endpoint \<^verbatim>\<open>POST /ask\<close> of \<^verbatim>\<open>app.py\<close>\<close>

record ask_response =
  response_answer :: string
  response_sources :: "(string \<rightharpoonup> pyval) list"

definition app_ask ::
  "(real \<Rightarrow> string) \<Rightarrow> environment \<Rightarrow> rag_service \<Rightarrow> string
     \<Rightarrow> (error + ask_response) \<times> rag_service \<times> string list"
where
  "app_ask fr env s query =
     (case (if \<not> initialized s then initialize env s else (None, s, [])) of
        (Some e, s', out) \<Rightarrow> (Inl e, s', out)
      | (None, s', out) \<Rightarrow>
          (case ask fr env s' query of
             (Inl e, s'', out') \<Rightarrow> (Inl e, s'', out @ out')
           | (Inr (ErrorResult msg), s'', out') \<Rightarrow> (Inl (HTTPException 500 msg), s'', out @ out')
           | (Inr (AnswerResult a srcs _), s'', out') \<Rightarrow>
               (Inr \<lparr>response_answer = a, response_sources = srcs\<rparr>, s'', out @ out')))"

section \<open>Vocabulary of the properties\<close>

text \<open>A similarity score inside the closed interval from 0 to 1.\<close>

fun in_unit_interval :: "pyfloat \<Rightarrow> bool" where
  "in_unit_interval (Fin r) = (0 \<le> r \<and> r \<le> 1)"
| "in_unit_interval _ = False"

text \<open>The test of line 82 on one pair of label and distance.\<close>

definition valid_label :: "chunk list \<Rightarrow> int \<times> pyfloat \<Rightarrow> bool" where
  "valid_label cs p = (0 \<le> fst p \<and> fst p < int (length cs))"

text \<open>The stored vectors with their labels and inner products, before ranking.\<close>

definition scored_entries :: "index_flat_ip \<Rightarrow> vec \<Rightarrow> (int \<times> real) list" where
  "scored_entries idx q = map (\<lambda>(i, v). (int i, inner_product q v)) (enumerate 0 (xb idx))"

section \<open>Example data\<close>

text \<open>
  Two counties after the example records of the specification, a model with three
  distinct embeddings, a two-vector index and a few environments.
\<close>

definition sample_repr :: "real \<Rightarrow> string" where
  "sample_repr r = (if r = 8.2 then ''8.2'' else ''0.0'')"




definition alpha_main :: row where
  "alpha_main = [''County'' \<mapsto> PStr ''Alpha'', ''State'' \<mapsto> PStr ''CA'',
                 ''Poverty_Rate'' \<mapsto> PInt 20]"

definition beta_main :: row where
  "beta_main = [''County'' \<mapsto> PStr ''Beta'', ''State'' \<mapsto> PStr ''TX'',
                ''Poverty_Rate'' \<mapsto> PInt 5]"

definition alpha_worst :: row where
  "alpha_worst = [''County'' \<mapsto> PStr ''Alpha'', ''State'' \<mapsto> PStr ''CA'',
                  ''composite_risk'' \<mapsto> PFloat (Fin 8.2)]"

text \<open>A left join on county and state, enough for the example frames.\<close>

definition sample_merge :: "row list \<Rightarrow> row list \<Rightarrow> row list" where
  "sample_merge df_main df_worst =
     concat (map (\<lambda>l.
       (case filter (\<lambda>w. w ''County'' = l ''County'' \<and> w ''State'' = l ''State'') df_worst of
          [] \<Rightarrow> [l(''composite_risk'' \<mapsto> PFloat NaN)]
        | ms \<Rightarrow> map (\<lambda>w. l(''composite_risk'' := w ''composite_risk'')) ms)) df_main)"

definition sample_encode :: sentence_transformer where
  "sample_encode t = (if t = [] then [0, 1] else if t = ''far away'' then [- 3, 0] else [3, 4])"

definition alpha_chunk :: chunk where
  "alpha_chunk = \<lparr>chunk_text = ''Alpha, CA: high obesity 40%'',
                   metadata = [''county'' \<mapsto> PStr ''Alpha'', ''state'' \<mapsto> PStr ''CA'',
                               ''is_high_risk'' \<mapsto> PBool True],
                   chunk_id = 0\<rparr>"

definition beta_chunk :: chunk where
  "beta_chunk = \<lparr>chunk_text = ''Beta, TX: low obesity 10%'',
                  metadata = [''county'' \<mapsto> PStr ''Beta'', ''state'' \<mapsto> PStr ''TX'',
                              ''is_high_risk'' \<mapsto> PBool False],
                  chunk_id = 1\<rparr>"

definition gamma_chunk :: chunk where
  "gamma_chunk = \<lparr>chunk_text = ''Gamma, NY: moderate obesity 25%'',
                   metadata = [''county'' \<mapsto> PStr ''Gamma'', ''state'' \<mapsto> PStr ''NY'',
                               ''is_high_risk'' \<mapsto> PBool False],
                   chunk_id = 2\<rparr>"

definition sample_index :: index_flat_ip where
  "sample_index = \<lparr>dim = 2, xb = [[1, 0], [0, 1]]\<rparr>"

definition ready_service :: rag_service where
  "ready_service = new_rag_service
     \<lparr>model := Some sample_encode, index := Some sample_index,
      chunks := [alpha_chunk, beta_chunk], client := Some ''gsk-key'', initialized := True\<rparr>"

definition degraded_service :: rag_service where
  "degraded_service = new_rag_service\<lparr>model := Some sample_encode, initialized := True\<rparr>"

definition env_missing :: environment where
  "env_missing =
     \<lparr>load_model = (\<lambda>name. Inr sample_encode), index_files = Map.empty,
      chunk_files = Map.empty, groq_api_key = None,
      chat_completion = (\<lambda>key prompt. Inr ''Alpha County has the highest obesity rate.'')\<rparr>"

definition env_mismatch :: environment where
  "env_mismatch = env_missing
     \<lparr>index_files := [''faiss_index.bin'' \<mapsto> Inr sample_index],
      chunk_files := [''chunks.pkl'' \<mapsto> Inr [alpha_chunk, beta_chunk, gamma_chunk]]\<rparr>"

definition env_chunks_only :: environment where
  "env_chunks_only = env_missing
     \<lparr>chunk_files := [''chunks.pkl'' \<mapsto> Inr [alpha_chunk, beta_chunk]],
      groq_api_key := Some ''gsk-key''\<rparr>"

section \<open>The offline build keeps positions\<close>

lemma build_chunks_eq:
  "build_chunks fr irows (cs, ts) =
     (cs @ map (\<lambda>(i, row). \<lparr>chunk_text = row_to_text fr row,
                  metadata = [''county'' \<mapsto> row_get row ''County'' PNone,
                              ''state'' \<mapsto> row_get row ''State'' PNone,
                              ''is_high_risk'' \<mapsto> PBool (notna (row_get row ''composite_risk'' PNone))],
                  chunk_id = int i\<rparr>) irows,
      ts @ map (\<lambda>(i, row). row_to_text fr row) irows)"
  by (induction irows arbitrary: cs ts) (auto simp: Let_def)

lemma build_chunks_length:
  "build_chunks fr (iterrows df) ([], []) = (cs, ts) \<Longrightarrow> length cs = length df \<and> length ts = length df"
  by (auto simp: build_chunks_eq iterrows_def)

lemma build_chunks_nth:
  assumes "build_chunks fr (iterrows df) ([], []) = (cs, ts)" and "i < length df"
  shows "chunk_id (cs ! i) = int i" and "chunk_text (cs ! i) = row_to_text fr (df ! i)"
    and "ts ! i = chunk_text (cs ! i)"
  using assms by (auto simp: build_chunks_eq iterrows_def nth_enumerate_eq)

lemma generate_assets_empty:
  "df_combined merge df_main df_worst = [] \<Longrightarrow>
   generate_assets fr encode merge df_main df_worst = Inl IndexError"
  by (simp add: generate_assets_def iterrows_def)

lemma sample_frame:
  "df_combined sample_merge [alpha_main, beta_main] (Some [alpha_worst])
     = [alpha_main(''composite_risk'' \<mapsto> PFloat (Fin 8.2)),
        beta_main(''composite_risk'' \<mapsto> PFloat NaN)]"
  by (simp add: df_combined_def sample_merge_def alpha_main_def beta_main_def alpha_worst_def)

text \<open>
  C1. Every build over a non-empty joined frame returns an index and a chunk list of the
  length of the frame, in which the chunk at position \<open>i\<close> has \<open>chunk_id = i\<close> and the
  text of row \<open>i\<close>, and the vector stored at position \<open>i\<close> of the index is the
  normalized embedding of that chunk's text: nothing is reordered, dropped or merged
  between the construction of the chunks and the insertion into the index. (On an empty
  frame the build raises before it writes anything, see \<open>generate_assets_empty\<close>.)
\<close>

theorem generate_assets_positional:
  assumes "df_combined merge df_main df_worst \<noteq> []"
  shows "\<exists>idx cs. generate_assets fr encode merge df_main df_worst = Inr (idx, cs)
           \<and> length cs = length (df_combined merge df_main df_worst)
           \<and> length (xb idx) = length cs
           \<and> (\<forall>i < length cs. chunk_id (cs ! i) = int i
                 \<and> chunk_text (cs ! i) = row_to_text fr (df_combined merge df_main df_worst ! i)
                 \<and> xb idx ! i = normalize_L2 (encode (chunk_text (cs ! i))))"
proof -
  let ?df = "df_combined merge df_main df_worst"
  obtain cs ts where b: "build_chunks fr (iterrows ?df) ([], []) = (cs, ts)"
    by (cases "build_chunks fr (iterrows ?df) ([], [])") auto
  have len: "length cs = length ?df" "length ts = length ?df"
    using build_chunks_length [OF b] by auto
  from len assms obtain t ts' where ts: "ts = t # ts'" by (cases ts) auto
  let ?emb = "map normalize_L2 (map encode ts)"
  let ?idx = "index_add (IndexFlatIP (length (normalize_L2 (encode t)))) ?emb"
  have g: "generate_assets fr encode merge df_main df_worst = Inr (?idx, cs)"
    using b ts by (simp add: generate_assets_def)
  have xb: "xb ?idx = ?emb" by (simp add: index_add_def IndexFlatIP_def)
  have "\<forall>i < length cs. chunk_id (cs ! i) = int i
          \<and> chunk_text (cs ! i) = row_to_text fr (?df ! i)
          \<and> xb ?idx ! i = normalize_L2 (encode (chunk_text (cs ! i)))"
    using build_chunks_nth [OF b] len unfolding xb by simp
  with g len xb show ?thesis by (intro exI [of _ ?idx] exI [of _ cs]) simp
qed

theorem generate_assets_positional_witness:
  "df_combined sample_merge [alpha_main, beta_main] (Some [alpha_worst]) \<noteq> []
   \<and> (\<exists>idx cs. generate_assets sample_repr sample_encode sample_merge [alpha_main, beta_main]
                   (Some [alpha_worst]) = Inr (idx, cs)
           \<and> length cs = 2 \<and> length (xb idx) = 2
           \<and> (\<forall>i < 2. chunk_id (cs ! i) = int i
                 \<and> xb idx ! i = normalize_L2 (sample_encode (chunk_text (cs ! i)))))"
proof -
  have h: "df_combined sample_merge [alpha_main, beta_main] (Some [alpha_worst]) \<noteq> []"
    by (simp add: sample_frame)
  show ?thesis
    using h generate_assets_positional [OF h, of sample_repr sample_encode]
    by (auto simp: sample_frame)
qed

section \<open>The risk section of a profile\<close>















section \<open>Retrieval\<close>

lemma length_normalize_L2: "length (normalize_L2 v) = length v"
  by (simp add: normalize_L2_def Let_def)

lemma similarity_in_unit_interval: "in_unit_interval (similarity_of x)"
  by (cases x) (auto simp: similarity_of_def py_min_def py_max_def)

lemma collect_results_eq:
  "collect_results cs found acc =
     acc @ map (\<lambda>p. (cs ! nat (fst p), similarity_of (snd p))) (filter (valid_label cs) found)"
  by (induction cs found acc rule: collect_results.induct) (auto simp: valid_label_def)

lemma normalize_sample_empty: "normalize_L2 (sample_encode []) = [0, 1]"
  by (simp add: normalize_L2_def sample_encode_def)

lemma normalize_sample_far: "normalize_L2 (sample_encode ''far away'') = [- 1, 0]"
  by (simp add: normalize_L2_def sample_encode_def)

lemma search_sample_empty:
  "index_search sample_index [0, 1] 1 = Inr [(1, Fin 1)]"
  by (simp add: index_search_def sample_index_def inner_product_def enumerate_eq_zip)

lemma search_sample_empty_ten:
  "index_search sample_index [0, 1] 10 =
     Inr ([(1, Fin 1), (0, Fin 0)] @ replicate 8 (- 1, Fin lowest_float))"
  by (simp add: index_search_def sample_index_def inner_product_def enumerate_eq_zip)

lemma search_sample_far:
  "index_search sample_index [- 1, 0] 2 = Inr [(1, Fin 0), (0, Fin (- 1))]"
  by (simp add: index_search_def sample_index_def inner_product_def enumerate_eq_zip)

lemma retrieve_empty_query_ten:
  "retrieve ready_service [] 10 = Inr [(beta_chunk, Fin 1), (alpha_chunk, Fin 0)]"
  by (simp add: retrieve_def ready_service_def new_rag_service_def normalize_sample_empty
        search_sample_empty_ten collect_results_eq valid_label_def similarity_of_def
        py_min_def py_max_def)

text \<open>
  C4. Whatever the query and \<open>top_k\<close>, every similarity score in a sequence that
  \<^verbatim>\<open>retrieve\<close> returns lies in the closed interval from 0 to 1. In the example the
  inner product is \<open>-1\<close> and the score returned is \<open>0\<close>.
\<close>

theorem retrieve_scores_in_unit_interval:
  assumes "retrieve s query top_k = Inr results" and "(c, sim) \<in> set results"
  shows "in_unit_interval sim"
  using assms
  by (auto simp: retrieve_def collect_results_eq similarity_in_unit_interval Let_def
           split: option.splits if_splits sum.splits)

theorem retrieve_scores_in_unit_interval_witness:
  "retrieve ready_service ''far away'' 2 = Inr [(beta_chunk, Fin 0), (alpha_chunk, Fin 0)]
   \<and> (alpha_chunk, Fin 0) \<in> set [(beta_chunk, Fin 0), (alpha_chunk, Fin 0)]
   \<and> in_unit_interval (Fin 0)"
proof -
  have h: "retrieve ready_service ''far away'' 2 = Inr [(beta_chunk, Fin 0), (alpha_chunk, Fin 0)]"
    by (simp add: retrieve_def ready_service_def new_rag_service_def normalize_sample_far
          search_sample_far similarity_of_def py_min_def py_max_def)
  have m: "(alpha_chunk, Fin 0) \<in> set [(beta_chunk, Fin 0), (alpha_chunk, Fin 0)]" by simp
  show ?thesis using h m retrieve_scores_in_unit_interval [OF h m] by simp
qed

text \<open>
  C5. With the index not loaded, or with no chunks loaded, \<^verbatim>\<open>retrieve\<close> returns the
  empty sequence for every query and every \<open>top_k\<close>; it raises nothing, also when the
  model is not loaded either.
\<close>

theorem retrieve_unloaded_empty:
  "index s = None \<or> chunks s = [] \<Longrightarrow> retrieve s query top_k = Inr []"
  by (auto simp: retrieve_def split: option.splits)

theorem retrieve_unloaded_empty_witness:
  "(index degraded_service = None \<or> chunks degraded_service = [])
   \<and> retrieve degraded_service ''anything'' 5 = Inr []"
proof -
  have h: "index degraded_service = None \<or> chunks degraded_service = []"
    by (simp add: degraded_service_def new_rag_service_def)
  show ?thesis using h retrieve_unloaded_empty [OF h] by simp
qed

subsection \<open>More neighbours asked for than stored\<close>

lemma index_search_overflow:
  assumes "0 < k" and "length q = dim idx" and "int (ntotal idx) \<le> k"
  shows "index_search idx q k =
           Inr (map (\<lambda>(i, s). (i, Fin s))
                  (sort_key (\<lambda>(i, s). - s) (scored_entries idx q)
                   @ replicate (nat k - ntotal idx) (- 1, lowest_float)))"
proof -
  have "length (sort_key (\<lambda>(i, s). - s) (scored_entries idx q)) = ntotal idx"
    by (simp add: scored_entries_def ntotal_def)
  with assms show ?thesis
    by (simp add: index_search_def Let_def scored_entries_def [symmetric])
qed

lemma mset_labels:
  "mset (map fst (scored_entries idx q)) = mset (map int [0..<ntotal idx])"
proof -
  have "map fst (scored_entries idx q) = map (int \<circ> fst) (enumerate 0 (xb idx))"
    by (simp add: scored_entries_def case_prod_beta comp_def)
  also have "\<dots> = map int (map fst (enumerate 0 (xb idx)))"
    by (simp only: map_map)
  also have "\<dots> = map int [0..<ntotal idx]"
    by (simp add: ntotal_def)
  finally show ?thesis by simp
qed

lemma ranked_labels:
  "mset (map fst (sort_key f (scored_entries idx q))) = mset (map int [0..<ntotal idx])"
proof -
  have "mset (map fst (sort_key f (scored_entries idx q)))
          = image_mset fst (mset (sort_key f (scored_entries idx q)))" by simp
  also have "\<dots> = image_mset fst (mset (scored_entries idx q))" by simp
  also have "\<dots> = mset (map fst (scored_entries idx q))" by simp
  finally show ?thesis by (simp only: mset_labels)
qed

lemma ranked_valid:
  assumes "ntotal idx = length cs" and "p \<in> set (sort_key f (scored_entries idx q))"
  shows "0 \<le> fst p \<and> fst p < int (length cs)"
proof -
  from assms(2) have "fst p \<in> set (map fst (sort_key f (scored_entries idx q)))" by force
  then have "fst p \<in># mset (map fst (sort_key f (scored_entries idx q)))" by simp
  then have "fst p \<in># mset (map int [0..<ntotal idx])" by (simp only: ranked_labels)
  with assms(1) show ?thesis by auto
qed

lemma ranked_all_valid:
  assumes "ntotal idx = length cs"
  shows "filter (valid_label cs) (map (\<lambda>(i, s). (i, Fin s)) (sort_key f (scored_entries idx q)))
           = map (\<lambda>(i, s). (i, Fin s)) (sort_key f (scored_entries idx q))"
  using ranked_valid [OF assms]
  by (intro filter_True) (auto simp: valid_label_def)

lemma padding_not_valid:
  "filter (valid_label cs) (replicate n (- 1, x)) = []"
  by (simp add: valid_label_def)

lemma overflow_chunks:
  assumes "ntotal idx = length cs"
  shows "mset (map (\<lambda>p. cs ! nat (fst p)) (sort_key f (scored_entries idx q))) = mset cs"
proof -
  have "mset (map (\<lambda>p. cs ! nat (fst p)) (sort_key f (scored_entries idx q)))
          = image_mset (\<lambda>i. cs ! nat i) (mset (map fst (sort_key f (scored_entries idx q))))"
    by (simp add: multiset.map_comp comp_def)
  also have "\<dots> = image_mset (\<lambda>i. cs ! nat i) (mset (map int [0..<ntotal idx]))"
    by (simp only: ranked_labels)
  also have "\<dots> = mset (map (\<lambda>i. cs ! i) [0..<length cs])"
    using assms by (simp add: multiset.map_comp comp_def)
  also have "\<dots> = mset cs" by (simp only: map_nth)
  finally show ?thesis .
qed

text \<open>
  C6. With the model loaded and the loaded index holding one vector per chunk, a
  \<open>top_k\<close> above the number of chunks makes \<^verbatim>\<open>retrieve\<close> return, without raising,
  exactly as many results as there are chunks, and the chunks returned are the stored
  chunks, each once: the filling entries of the search are all dropped. The query's
  embedding has the dimension of the index, as it has when both come from one model.
\<close>

theorem retrieve_k_overflow:
  assumes "model s = Some m" and "index s = Some idx"
    and "ntotal idx = length (chunks s)"
    and "length (m query) = dim idx"
    and "int (length (chunks s)) < top_k"
  shows "\<exists>results. retrieve s query top_k = Inr results
           \<and> length results = length (chunks s)
           \<and> mset (map fst results) = mset (chunks s)"
proof (cases "chunks s = []")
  case True
  with assms(2) show ?thesis by (simp add: retrieve_def)
next
  case False
  let ?q = "normalize_L2 (m query)"
  let ?ranked = "sort_key (\<lambda>(i, s). - s) (scored_entries idx ?q)"
  let ?results = "map (\<lambda>p. (chunks s ! nat (fst p), similarity_of (snd p)))
                    (map (\<lambda>(i, s). (i, Fin s)) ?ranked)"
  have k: "0 < top_k" "int (ntotal idx) \<le> top_k" using assms(3,5) by auto
  have srch: "index_search idx ?q top_k =
           Inr (map (\<lambda>(i, s). (i, Fin s))
                  (?ranked @ replicate (nat top_k - ntotal idx) (- 1, lowest_float)))"
    using index_search_overflow [OF k(1) _ k(2), of ?q] assms(4)
    by (simp add: length_normalize_L2)
  have r: "retrieve s query top_k = Inr ?results"
    using False assms(1,2) srch
    by (simp add: retrieve_def collect_results_eq ranked_all_valid [OF assms(3)]
          padding_not_valid)
  have len: "length ?results = length (chunks s)"
    using assms(3) by (simp add: scored_entries_def ntotal_def)
  have "map fst ?results = map (\<lambda>p. chunks s ! nat (fst p)) ?ranked"
    by (simp add: case_prod_beta comp_def)
  then have "mset (map fst ?results) = mset (chunks s)"
    by (simp only: overflow_chunks [OF assms(3)])
  with r len show ?thesis by blast
qed

theorem retrieve_k_overflow_witness:
  "model ready_service = Some sample_encode \<and> index ready_service = Some sample_index
   \<and> ntotal sample_index = length (chunks ready_service)
   \<and> length (sample_encode ''obesity'') = dim sample_index
   \<and> int (length (chunks ready_service)) < 5
   \<and> (\<exists>results. retrieve ready_service ''obesity'' 5 = Inr results
          \<and> length results = length (chunks ready_service)
          \<and> mset (map fst results) = mset (chunks ready_service))"
proof -
  have h: "model ready_service = Some sample_encode" "index ready_service = Some sample_index"
    "ntotal sample_index = length (chunks ready_service)"
    "length (sample_encode ''obesity'') = dim sample_index"
    "int (length (chunks ready_service)) < 5"
    by (simp_all add: ready_service_def new_rag_service_def sample_encode_def sample_index_def
          ntotal_def)
  show ?thesis using h retrieve_k_overflow [OF h] by blast
qed

section \<open>Initialization and the degraded service\<close>

lemma initialize_when_initialized:
  "initialized s \<Longrightarrow> initialize env s = (None, s, [])"
  by (simp add: initialize_def)

lemma and_then_None:
  "and_then r f = (None, s', out) \<Longrightarrow>
   \<exists>s1 out1 out2. r = (None, s1, out1) \<and> f s1 = (None, s', out2) \<and> out = out1 @ out2"
  by (auto simp: and_then_def split: prod.splits option.splits)

lemma initialize_returns_initialized:
  assumes "initialize env s = (None, s', out)"
  shows "initialized s'"
proof (cases "initialized s")
  case True
  with assms show ?thesis by (simp add: initialize_def)
next
  case False
  with assms show ?thesis
    by (auto simp: initialize_def dest!: and_then_None)
qed

lemma initialize_steps:
  assumes "\<not> initialized s" and "load_model env (model_name s) = Inr m"
  shows "initialize env s =
           and_then (None, s\<lparr>model := Some m\<rparr>, [''Loading embedding model: '' @ model_name s @ ''...''])
             (\<lambda>s. and_then (load_faiss_index env s) (\<lambda>s.
                   and_then (load_chunks env s) (\<lambda>s.
                   and_then (init_groq_client env s) (\<lambda>s.
                   (None, s\<lparr>initialized := True\<rparr>, [])))))"
  using assms by (simp add: initialize_def load_embedding_model_def)

lemma ask_when_initialized:
  "initialized s \<Longrightarrow> snd (ask fr env s q) = (s, [])"
  by (simp add: ask_def Let_def split: option.splits sum.splits)

lemma app_ask_when_initialized:
  "initialized s \<Longrightarrow> snd (app_ask fr env s q) = (s, [])"
  using ask_when_initialized [of s fr env q]
  by (cases "ask fr env s q")
     (auto simp: app_ask_def split: option.splits sum.splits ask_result.splits)

text \<open>
  C3, as the code has it. In an initialized service whose index is not loaded,
  \<^verbatim>\<open>RAGService.ask\<close> raises nothing and leaves the service as it is. Without a client it
  returns the error dict with the fixed text about the missing key; with a client it
  sends a prompt with an empty context to the completion endpoint and returns either
  an error dict with the text of the exception or empty sources with the endpoint's own
  text as the answer. The \<^verbatim>\<open>/ask\<close> endpoint raises the HTTP error 500 from an error
  dict and passes an answer on.
\<close>

theorem ask_without_index:
  assumes "initialized s" and "index s = None"
  shows "ask fr env s q =
           (Inr (case client s of
                   None \<Rightarrow> ErrorResult client_missing
                 | Some key \<Rightarrow>
                     (case chat_completion env key (build_prompt [] q) of
                        Inl e \<Rightarrow> ErrorResult e
                      | Inr response_text \<Rightarrow> AnswerResult response_text [] [])),
            s, [])
         \<and> app_ask fr env s q =
           (case client s of
              None \<Rightarrow> Inl (HTTPException 500 client_missing)
            | Some key \<Rightarrow>
                (case chat_completion env key (build_prompt [] q) of
                   Inl e \<Rightarrow> Inl (HTTPException 500 e)
                 | Inr response_text \<Rightarrow>
                     Inr \<lparr>response_answer = response_text, response_sources = []\<rparr>),
            s, [])"
proof -
  have a: "ask fr env s q =
           (Inr (case client s of
                   None \<Rightarrow> ErrorResult client_missing
                 | Some key \<Rightarrow>
                     (case chat_completion env key (build_prompt [] q) of
                        Inl e \<Rightarrow> ErrorResult e
                      | Inr response_text \<Rightarrow> AnswerResult response_text [] [])),
            s, [])"
    using assms
    by (simp add: ask_def retrieve_def Let_def split: option.splits sum.splits)
  show ?thesis
    using assms(1) by (simp add: a app_ask_def split: option.splits sum.splits)
qed

theorem ask_without_index_witness:
  "initialized (degraded_service\<lparr>client := Some ''gsk-key''\<rparr>)
   \<and> index (degraded_service\<lparr>client := Some ''gsk-key''\<rparr>) = None
   \<and> ask sample_repr env_missing (degraded_service\<lparr>client := Some ''gsk-key''\<rparr>) ''anything''
       = (Inr (AnswerResult ''Alpha County has the highest obesity rate.'' [] []),
          degraded_service\<lparr>client := Some ''gsk-key''\<rparr>, [])
   \<and> app_ask sample_repr env_missing (degraded_service\<lparr>client := Some ''gsk-key''\<rparr>) ''anything''
       = (Inr \<lparr>response_answer = ''Alpha County has the highest obesity rate.'',
               response_sources = []\<rparr>,
          degraded_service\<lparr>client := Some ''gsk-key''\<rparr>, [])"
  using ask_without_index [of "degraded_service\<lparr>client := Some ''gsk-key''\<rparr>" sample_repr
      env_missing "''anything''"]
  by (simp add: degraded_service_def new_rag_service_def env_missing_def)

text \<open>
  The property as the specification states it fails here. Initialization without index file, chunk file and key gives the
  degraded service; there \<^verbatim>\<open>ask\<close> returns an error dict, which has neither an answer nor
  sources, and the endpoint raises the HTTP error 500 from it. With a client, the
  answer is what the completion endpoint has written, not a fixed message.
\<close>

theorem ask_degraded_counterexample:
  "initialize env_missing new_rag_service =
     (None, degraded_service,
      [''Loading embedding model: all-MiniLM-L6-v2...'',
       ''Warning: faiss_index.bin not found. RAG will not work.'',
       ''Warning: chunks.pkl not found.'',
       ''Warning: GROQ_API_KEY not found in environment.''])
   \<and> fst (ask sample_repr env_missing degraded_service ''anything'')
        = Inr (ErrorResult client_missing)
   \<and> fst (app_ask sample_repr env_missing degraded_service ''anything'')
        = Inl (HTTPException 500 client_missing)
   \<and> fst (ask sample_repr env_missing (degraded_service\<lparr>client := Some ''gsk-key''\<rparr>) ''anything'')
        = Inr (AnswerResult ''Alpha County has the highest obesity rate.'' [] [])"
  by (simp add: initialize_def and_then_def load_embedding_model_def load_faiss_index_def
        load_chunks_def init_groq_client_def env_missing_def new_rag_service_def
        degraded_service_def ask_def app_ask_def retrieve_def)

text \<open>
  C7, as the code has it. \<^verbatim>\<open>initialize\<close> does not compare the two artifacts: when the
  model loads and both files exist and can be read, the index and the chunk list are
  stored as read, whatever their sizes, the service is initialized, and the lines
  printed are the three loading lines, followed at most by the warning about the key.
\<close>

theorem initialize_loads_pair_unchecked:
  assumes "\<not> initialized s" and "load_model env (model_name s) = Inr m"
    and "index_files env (index_path s) = Some (Inr idx)"
    and "chunk_files env (chunks_path s) = Some (Inr cs)"
  shows "\<exists>s' key_lines.
           initialize env s =
             (None, s',
              [''Loading embedding model: '' @ model_name s @ ''...'',
               ''Loading FAISS index from '' @ index_path s @ ''...'',
               ''Loading chunks from '' @ chunks_path s @ ''...''] @ key_lines)
           \<and> index s' = Some idx \<and> chunks s' = cs \<and> initialized s'
           \<and> set key_lines \<subseteq> {''Warning: GROQ_API_KEY not found in environment.''}"
  using assms
  by (auto simp: initialize_steps and_then_def load_faiss_index_def load_chunks_def
        init_groq_client_def split: option.splits)

theorem initialize_loads_pair_unchecked_witness:
  "\<not> initialized new_rag_service
   \<and> load_model env_mismatch (model_name new_rag_service) = Inr sample_encode
   \<and> index_files env_mismatch (index_path new_rag_service) = Some (Inr sample_index)
   \<and> chunk_files env_mismatch (chunks_path new_rag_service)
        = Some (Inr [alpha_chunk, beta_chunk, gamma_chunk])
   \<and> (\<exists>s' key_lines.
           initialize env_mismatch new_rag_service =
             (None, s',
              [''Loading embedding model: '' @ model_name new_rag_service @ ''...'',
               ''Loading FAISS index from '' @ index_path new_rag_service @ ''...'',
               ''Loading chunks from '' @ chunks_path new_rag_service @ ''...''] @ key_lines)
           \<and> index s' = Some sample_index
           \<and> chunks s' = [alpha_chunk, beta_chunk, gamma_chunk] \<and> initialized s'
           \<and> set key_lines \<subseteq> {''Warning: GROQ_API_KEY not found in environment.''})"
proof -
  have h: "\<not> initialized new_rag_service"
    "load_model env_mismatch (model_name new_rag_service) = Inr sample_encode"
    "index_files env_mismatch (index_path new_rag_service) = Some (Inr sample_index)"
    "chunk_files env_mismatch (chunks_path new_rag_service)
       = Some (Inr [alpha_chunk, beta_chunk, gamma_chunk])"
    by (simp_all add: new_rag_service_def env_mismatch_def env_missing_def)
  show ?thesis using h initialize_loads_pair_unchecked [OF h] by blast
qed

text \<open>
  The property as the specification states it fails here: an index of two vectors and a list of three chunks are loaded
  together, and nothing printed speaks of the mismatch.
\<close>

theorem initialize_mismatch_counterexample:
  "initialize env_mismatch new_rag_service =
     (None,
      new_rag_service\<lparr>model := Some sample_encode, index := Some sample_index,
        chunks := [alpha_chunk, beta_chunk, gamma_chunk], initialized := True\<rparr>,
      [''Loading embedding model: all-MiniLM-L6-v2...'',
       ''Loading FAISS index from faiss_index.bin...'',
       ''Loading chunks from chunks.pkl...'',
       ''Warning: GROQ_API_KEY not found in environment.''])
   \<and> ntotal sample_index = 2
   \<and> length [alpha_chunk, beta_chunk, gamma_chunk] = 3"
  by (simp add: initialize_def and_then_def load_embedding_model_def load_faiss_index_def
        load_chunks_def init_groq_client_def env_mismatch_def env_missing_def
        new_rag_service_def ntotal_def sample_index_def)

text \<open>
  C8, as the code has it. A query is a string by its type, in \<^verbatim>\<open>retrieve\<close> and in the
  request model of the endpoint. No string is rejected: with model, index and chunks
  loaded, a positive \<open>top_k\<close> and matching dimensions, \<^verbatim>\<open>retrieve\<close> embeds the query,
  the empty one included, searches the index with the normalized embedding and returns
  the hits of that search.
\<close>

theorem retrieve_embeds_any_query:
  assumes "model s = Some m" and "index s = Some idx" and "chunks s \<noteq> []"
    and "0 < top_k" and "length (m query) = dim idx"
  shows "\<exists>found. index_search idx (normalize_L2 (m query)) top_k = Inr found
           \<and> length found = nat top_k
           \<and> retrieve s query top_k = Inr (collect_results (chunks s) found [])"
  using assms
  by (simp add: retrieve_def index_search_def Let_def length_normalize_L2)

theorem retrieve_embeds_any_query_witness:
  "model ready_service = Some sample_encode \<and> index ready_service = Some sample_index
   \<and> chunks ready_service \<noteq> [] \<and> (0::int) < 1
   \<and> length (sample_encode []) = dim sample_index
   \<and> (\<exists>found. index_search sample_index (normalize_L2 (sample_encode [])) 1 = Inr found
           \<and> length found = nat 1
           \<and> retrieve ready_service [] 1 = Inr (collect_results (chunks ready_service) found []))"
proof -
  have h: "model ready_service = Some sample_encode" "index ready_service = Some sample_index"
    "chunks ready_service \<noteq> []" "(0::int) < 1"
    "length (sample_encode []) = dim sample_index"
    by (simp_all add: ready_service_def new_rag_service_def sample_encode_def sample_index_def)
  show ?thesis using h retrieve_embeds_any_query [OF h] by blast
qed

text \<open>
  The property as the specification states it fails for the empty query:
  \<^verbatim>\<open>retrieve\<close> returns the chunk nearest to the embedding of the empty string, and
  \<^verbatim>\<open>ask\<close> an answer with two sources.
\<close>

theorem empty_query_counterexample:
  "retrieve ready_service [] 1 = Inr [(beta_chunk, Fin 1)]
   \<and> fst (ask sample_repr env_missing ready_service [])
       = Inr (AnswerResult ''Alpha County has the highest obesity rate.''
                [(metadata beta_chunk)(''similarity'' \<mapsto> PFloat (Fin 1)),
                 (metadata alpha_chunk)(''similarity'' \<mapsto> PFloat (Fin 0))]
                (''[Source: Beta, TX] Beta, TX: low obesity 10%'' @ nl @ nl
                 @ ''[Source: Alpha, CA] Alpha, CA: high obesity 40%''))"
proof -
  have a: "retrieve ready_service [] 1 = Inr [(beta_chunk, Fin 1)]"
    by (simp add: retrieve_def ready_service_def new_rag_service_def normalize_sample_empty
          search_sample_empty similarity_of_def py_min_def py_max_def)
  have i: "initialized ready_service" "client ready_service = Some ''gsk-key''"
    by (simp_all add: ready_service_def new_rag_service_def)
  have b: "fst (ask sample_repr env_missing ready_service [])
       = Inr (AnswerResult ''Alpha County has the highest obesity rate.''
                [(metadata beta_chunk)(''similarity'' \<mapsto> PFloat (Fin 1)),
                 (metadata alpha_chunk)(''similarity'' \<mapsto> PFloat (Fin 0))]
                (''[Source: Beta, TX] Beta, TX: low obesity 10%'' @ nl @ nl
                 @ ''[Source: Alpha, CA] Alpha, CA: high obesity 40%''))"
    by (simp add: ask_def i retrieve_empty_query_ten env_missing_def source_info_def
          source_block_def metadata_get_def alpha_chunk_def beta_chunk_def)
  from a b show ?thesis by simp
qed

text \<open>
  C9. \<^verbatim>\<open>initialize\<close> is idempotent: once a call has returned, another call, in whatever
  environment, returns at once, prints nothing and leaves the service as it is.
\<close>

theorem initialize_idempotent:
  "initialize env s = (None, s', out) \<Longrightarrow> initialize env' s' = (None, s', [])"
  by (simp add: initialize_returns_initialized initialize_when_initialized)

theorem initialize_idempotent_witness:
  "initialize env_missing new_rag_service =
     (None, degraded_service,
      [''Loading embedding model: all-MiniLM-L6-v2...'',
       ''Warning: faiss_index.bin not found. RAG will not work.'',
       ''Warning: chunks.pkl not found.'',
       ''Warning: GROQ_API_KEY not found in environment.''])
   \<and> initialize env_mismatch degraded_service = (None, degraded_service, [])"
proof -
  have h: "initialize env_missing new_rag_service =
     (None, degraded_service,
      [''Loading embedding model: all-MiniLM-L6-v2...'',
       ''Warning: faiss_index.bin not found. RAG will not work.'',
       ''Warning: chunks.pkl not found.'',
       ''Warning: GROQ_API_KEY not found in environment.''])"
    by (simp add: initialize_def and_then_def load_embedding_model_def load_faiss_index_def
          load_chunks_def init_groq_client_def env_missing_def new_rag_service_def
          degraded_service_def)
  show ?thesis using h initialize_idempotent [OF h, of env_mismatch] by simp
qed

text \<open>
  C10. When the model loads but the index file, the chunk file and the key are all
  missing, the first \<^verbatim>\<open>initialize\<close> returns with the flag set and with index, chunks and
  client as they were. From then on \<^verbatim>\<open>initialize\<close> in any later environment returns at
  once, and the \<^verbatim>\<open>/ask\<close> endpoint, whose own attempt to initialize is skipped, leaves the
  service unchanged and prints nothing: what becomes available later is never loaded.
\<close>

theorem initialize_never_reloads:
  assumes "\<not> initialized s" and "load_model env (model_name s) = Inr m"
    and "index_files env (index_path s) = None"
    and "chunk_files env (chunks_path s) = None"
    and "groq_api_key env = None"
  shows "fst (initialize env s) = None
         \<and> fst (snd (initialize env s)) = s\<lparr>model := Some m, initialized := True\<rparr>
         \<and> initialize env' (s\<lparr>model := Some m, initialized := True\<rparr>)
              = (None, s\<lparr>model := Some m, initialized := True\<rparr>, [])
         \<and> snd (app_ask fr env' (s\<lparr>model := Some m, initialized := True\<rparr>) q)
              = (s\<lparr>model := Some m, initialized := True\<rparr>, [])"
proof -
  have a: "initialize env s =
      (None, s\<lparr>model := Some m, initialized := True\<rparr>,
       [''Loading embedding model: '' @ model_name s @ ''...'',
        ''Warning: '' @ index_path s @ '' not found. RAG will not work.'',
        ''Warning: '' @ chunks_path s @ '' not found.'',
        ''Warning: GROQ_API_KEY not found in environment.''])"
    using assms
    by (simp add: initialize_steps and_then_def load_faiss_index_def load_chunks_def
          init_groq_client_def)
  have b: "initialized (s\<lparr>model := Some m, initialized := True\<rparr>)" by simp
  show ?thesis
    using a initialize_when_initialized [OF b] app_ask_when_initialized [OF b] by simp
qed

theorem initialize_never_reloads_witness:
  "\<not> initialized new_rag_service
   \<and> load_model env_missing (model_name new_rag_service) = Inr sample_encode
   \<and> index_files env_missing (index_path new_rag_service) = None
   \<and> chunk_files env_missing (chunks_path new_rag_service) = None
   \<and> groq_api_key env_missing = None
   \<and> fst (snd (initialize env_missing new_rag_service)) = degraded_service
   \<and> initialize env_chunks_only degraded_service = (None, degraded_service, [])
   \<and> snd (app_ask sample_repr env_chunks_only degraded_service ''anything'')
        = (degraded_service, [])"
proof -
  have h: "\<not> initialized new_rag_service"
    "load_model env_missing (model_name new_rag_service) = Inr sample_encode"
    "index_files env_missing (index_path new_rag_service) = None"
    "chunk_files env_missing (chunks_path new_rag_service) = None"
    "groq_api_key env_missing = None"
    by (simp_all add: new_rag_service_def env_missing_def)
  show ?thesis
    using h initialize_never_reloads [OF h, of env_chunks_only sample_repr "''anything''"]
    by (simp add: degraded_service_def)
qed

end
